theory Spec2Isabelle
  imports Complex_Main "HOL-Library.Word"
begin

section \<open>Errors and block records of the spectra reader (nenupy/io/tf.py)\<close>

text \<open>
  Exceptions of the Python source are values: a function that can raise returns
  \<open>error + 'a\<close> with \<open>Inl\<close> carrying the exception class.
\<close>

datatype error = TypeError | IndexError | ValueError | KeyError | ZeroDivisionError | OverflowError

text \<open>
  \<open>BLOCK_HEADER\<close>: three unsigned 64-bit fields followed by six signed 32-bit fields.
  Signed fields are 32-bit words read with \<open>sint\<close>.
\<close>

record block_header =
  idx :: "64 word"
  TIMESTAMP :: "64 word"
  BLOCKSEQNUMBER :: "64 word"
  fftlen :: "32 word"
  nfft2int :: "32 word"
  fftovlp :: "32 word"
  apodisation :: "32 word"
  nffte :: "32 word"
  nbchan :: "32 word"

text \<open>\<open>beamlet_dtype\<close>: one record per subband inside a block.\<close>

record beamlet =
  lane :: "32 word"
  beam_id :: "32 word"
  channel :: "32 word"
  fft0 :: "real list list list"
  fft1 :: "real list list list"

text \<open>\<open>global_struct\<close>: the header fields plus the \<open>data\<close> field holding the beamlets.\<close>

record block = block_header +
  beamlet_data :: "beamlet list"

section \<open>Spectra._get_bad_data_mask\<close>

text \<open>
  numpy's \<open>+\<close> on boolean arrays is the elementwise logical or. The assignment
  \<open>block_start_idx_mask[0] = False\<close> raises IndexError on an array of length 0.
\<close>

definition mask_add :: "bool list \<Rightarrow> bool list \<Rightarrow> bool list" where
  "mask_add xs ys = map2 (\<or>) xs ys"

definition get_bad_data_mask :: "block list \<Rightarrow> error + bool list" where
  "get_bad_data_mask blocks =
     (let block_timestamp_mask = map (\<lambda>b. TIMESTAMP b = 0) blocks;
          block_start_idx_mask = map (\<lambda>b. idx b = 0) blocks;
          block_nsubbands_mask = map (\<lambda>b. sint (nbchan b) < 0) blocks
      in if block_start_idx_mask = [] then Inl IndexError
         else
           let block_start_idx_mask = block_start_idx_mask[0 := False];
               bad_block_mask =
                 mask_add (mask_add block_start_idx_mask block_start_idx_mask) block_nsubbands_mask
           in Inr bad_block_mask)"

text \<open>The two-condition reference of the specification: start-index term or subband term.\<close>

definition bad_mask_reference :: "block list \<Rightarrow> bool list" where
  "bad_mask_reference blocks =
     mask_add ((map (\<lambda>b. idx b = 0) blocks)[0 := False]) (map (\<lambda>b. sint (nbchan b) < 0) blocks)"

section \<open>Python values and numeric helpers\<close>

text \<open>
  The values a caller can hand to the configuration setters. \<open>PyNpInt\<close> is a numpy
  integer scalar, \<open>PyTime\<close> an \<open>astropy.time.Time\<close> array (unix seconds) and
  \<open>PyQuantity\<close> an \<open>astropy.units.Quantity\<close> array (values in Hz).
\<close>

datatype pyval =
    PyNone
  | PyBool bool
  | PyInt int
  | PyFloat real
  | PyStr string
  | PyNpInt int
  | PyTuple "pyval list"
  | PyTime "real list"
  | PyQuantity "real list"

text \<open>
  \<open>isinstance(v, int)\<close>: true for \<open>int\<close> and for its subclass \<open>bool\<close>, false for
  every other value (numpy integer scalars do not derive from \<open>int\<close>). The result
  carries the integer the value compares equal to.
\<close>

fun py_int_value :: "pyval \<Rightarrow> int option" where
  "py_int_value (PyInt n) = Some n"
| "py_int_value (PyBool b) = Some (if b then 1 else 0)"
| "py_int_value _ = None"

definition isinstance_int :: "pyval \<Rightarrow> bool" where
  "isinstance_int v = (py_int_value v \<noteq> None)"

text \<open>\<open>str()\<close> of an integer: decimal digits, with a leading minus sign when negative.\<close>

definition digit_char :: "nat \<Rightarrow> char" where
  "digit_char d = char_of (48 + d)"

function str_nat :: "nat \<Rightarrow> string" where
  "str_nat n = (if n < 10 then [digit_char n] else str_nat (n div 10) @ [digit_char (n mod 10)])"
  by pat_completeness auto
termination
  by (relation "measure id") auto

declare str_nat.simps [simp del]

definition str_int :: "int \<Rightarrow> string" where
  "str_int i = (if i < 0 then CHR ''-'' # str_nat (nat (- i)) else str_nat (nat i))"

fun py_str :: "pyval \<Rightarrow> string" where
  "py_str (PyInt n) = str_int n"
| "py_str (PyNpInt n) = str_int n"
| "py_str (PyBool b) = (if b then ''True'' else ''False'')"
| "py_str (PyStr s) = s"
| "py_str PyNone = ''None''"
| "py_str _ = ''<object>''"

text \<open>
  \<open>astype(int)\<close> on an array of strings: each string is read as a signed decimal
  integer, and a string that is not one raises ValueError.
\<close>

definition digit_val :: "char \<Rightarrow> nat option" where
  "digit_val c = (let k = of_char c :: nat in if 48 \<le> k \<and> k \<le> 57 then Some (k - 48) else None)"

fun digits_val :: "nat \<Rightarrow> string \<Rightarrow> nat option" where
  "digits_val acc [] = Some acc"
| "digits_val acc (c # cs) =
     (case digit_val c of None \<Rightarrow> None | Some d \<Rightarrow> digits_val (10 * acc + d) cs)"

definition int_of_str :: "string \<Rightarrow> int option" where
  "int_of_str s =
     (case s of
        [] \<Rightarrow> None
      | c # cs \<Rightarrow>
          if c = CHR ''-'' then (if cs = [] then None else map_option (\<lambda>n. - int n) (digits_val 0 cs))
          else map_option int (digits_val 0 s))"

fun strs_astype_int :: "string list \<Rightarrow> error + int list" where
  "strs_astype_int [] = Inr []"
| "strs_astype_int (s # ss) =
     (case int_of_str s of
        None \<Rightarrow> Inl ValueError
      | Some n \<Rightarrow> (case strs_astype_int ss of Inl e \<Rightarrow> Inl e | Inr ns \<Rightarrow> Inr (n # ns)))"

text \<open>
  A float64 result that may be infinite or not a number. Finite values are exact reals:
  rounding of floating-point arithmetic is not modelled.
\<close>

datatype float_val = Finite real | PosInf | NegInf | NotANumber

text \<open>numpy true division of finite floats: division by zero gives an infinity or nan.\<close>

definition np_divide :: "real \<Rightarrow> real \<Rightarrow> float_val" where
  "np_divide a b =
     (if b \<noteq> 0 then Finite (a / b)
      else if a = 0 then NotANumber else if 0 < a then PosInf else NegInf)"

text \<open>\<open>int(x)\<close> of a float: truncation; OverflowError on an infinity, ValueError on nan.\<close>

definition trunc :: "real \<Rightarrow> int" where
  "trunc x = (if 0 \<le> x then \<lfloor>x\<rfloor> else \<lceil>x\<rceil>)"

definition py_int_of_float :: "float_val \<Rightarrow> error + int" where
  "py_int_of_float x =
     (case x of Finite r \<Rightarrow> Inr (trunc r) | PosInf \<Rightarrow> Inl OverflowError
      | NegInf \<Rightarrow> Inl OverflowError | NotANumber \<Rightarrow> Inl ValueError)"

text \<open>\<open>np.round\<close>: to the nearest integer, a tie going to the even neighbour.\<close>

definition np_round :: "real \<Rightarrow> int" where
  "np_round x =
     (let f = \<lfloor>x\<rfloor>; r = x - of_int f
      in if r < 1 / 2 then f else if 1 / 2 < r then f + 1 else if even f then f else f + 1)"

definition float_map :: "(real \<Rightarrow> real) \<Rightarrow> float_val \<Rightarrow> float_val" where
  "float_map g x = (case x of Finite r \<Rightarrow> Finite (g r) | y \<Rightarrow> y)"

text \<open>\<open>np.argmin\<close>: position of the first minimum; ValueError on an empty array.\<close>

fun argmin_from :: "nat \<Rightarrow> 'a::linorder \<Rightarrow> nat \<Rightarrow> 'a list \<Rightarrow> nat" where
  "argmin_from best v i [] = best"
| "argmin_from best v i (x # xs) =
     (if x < v then argmin_from i x (Suc i) xs else argmin_from best v (Suc i) xs)"

definition np_argmin :: "'a::linorder list \<Rightarrow> error + nat" where
  "np_argmin xs = (case xs of [] \<Rightarrow> Inl ValueError | x # rest \<Rightarrow> Inr (argmin_from 0 x 1 rest))"

text \<open>
  A Python slice \<open>xs[start:stop]\<close> with step 1: a negative bound counts from the end,
  and bounds are clipped to the sequence.
\<close>

definition slice_bound :: "nat \<Rightarrow> int \<Rightarrow> nat" where
  "slice_bound n i = (if i < 0 then nat (max (i + int n) 0) else min (nat i) n)"

definition py_slice :: "int option \<Rightarrow> int option \<Rightarrow> 'a list \<Rightarrow> 'a list" where
  "py_slice start stop xs =
     (let n = length xs;
          s = (case start of None \<Rightarrow> 0 | Some i \<Rightarrow> slice_bound n i);
          e = (case stop of None \<Rightarrow> n | Some i \<Rightarrow> slice_bound n i)
      in take (e - s) (drop s xs))"

section \<open>Spectra._lazy_load_data\<close>

definition SUBBAND_WIDTH :: real where
  "SUBBAND_WIDTH = 195312.5"

text \<open>
  The file-level attributes set by \<open>_lazy_load_data\<close>. The three counts are numpy int32
  scalars read from the header; \<open>dt\<close> is in seconds and \<open>df\<close> in Hz.
\<close>

record file_params =
  n_time_per_block :: "32 word"
  n_channels :: "32 word"
  n_subbands :: "32 word"
  dt :: real
  df :: float_val

text \<open>\<open>np.abs\<close> on an int32 scalar: the negation wraps, so the minimum maps to itself.\<close>

definition np_abs32 :: "32 word \<Rightarrow> 32 word" where
  "np_abs32 x = (if sint x < 0 then - x else x)"

text \<open>
  The file is given as its sequence of block records. Reading the first header from a
  file with no complete header raises ValueError (\<open>np.frombuffer\<close>). The product
  \<open>n_channels * nfft2int\<close> is a product of two int32 scalars and wraps. A negative
  dimension in the structured dtype raises ValueError, and so does the final \<open>view\<close>
  when the file is not a whole number of records of the deduced layout, which here reads:
  some block does not hold \<open>n_subbands\<close> beamlets.
\<close>

definition lazy_load_data :: "block list \<Rightarrow> error + (file_params \<times> block list)" where
  "lazy_load_data blocks =
     (case blocks of
        [] \<Rightarrow> Inl ValueError
      | header # _ \<Rightarrow>
          let ntb = nffte header;
              nch = fftlen header;
              nsb = np_abs32 (nbchan header);
              p = \<lparr>n_time_per_block = ntb, n_channels = nch, n_subbands = nsb,
                   dt = real_of_int (sint (nch * nfft2int header)) / SUBBAND_WIDTH,
                   df = np_divide SUBBAND_WIDTH (real_of_int (sint nch))\<rparr>
          in if sint ntb < 0 \<or> sint nch < 0 \<or> sint nsb < 0 then Inl ValueError
             else if \<exists>b \<in> set blocks. int (length (beamlet_data b)) \<noteq> sint nsb then Inl ValueError
             else Inr (p, blocks))"

section \<open>_ProcessingConfiguration\<close>

text \<open>
  The attributes of the configuration object. The four validated properties
  (\<open>time_range\<close>, \<open>frequency_range\<close>, \<open>beam\<close>, \<open>edge_channels_to_remove\<close>) hold the
  value last accepted by their setter; the other attributes are plain and unvalidated.
  Times are unix seconds, frequencies are in Hz.
\<close>

record config =
  available_beams :: "int list"
  time_min :: real
  time_max :: real
  frequency_min :: real
  frequency_max :: real
  time_range :: "real list"
  frequency_range :: "real list"
  beam :: pyval
  dispersion_measure :: pyval
  rotation_measure :: pyval
  rebin_dt :: "real option"
  rebin_df :: "real option"
  jump_correction :: bool
  dreambeam_inputs :: "pyval \<times> pyval \<times> pyval"
  correct_bandpass :: bool
  edge_channels_to_remove :: pyval

text \<open>
  A setter is a state transformer: it returns the exception raised, if any, together with
  the object's state when it returns or raises.
\<close>

type_synonym setter = "config \<Rightarrow> error option \<times> config"

definition set_beam :: "pyval \<Rightarrow> setter" where
  "set_beam selected_beam self =
     (case py_int_value selected_beam of
        None \<Rightarrow> (Some TypeError, self)
      | Some n \<Rightarrow>
          if n \<notin> set (available_beams self) then (Some IndexError, self)
          else (None, self\<lparr>beam := selected_beam\<rparr>))"

definition set_time_range :: "pyval \<Rightarrow> setter" where
  "set_time_range selected_range self =
     (case selected_range of
        PyTime ts \<Rightarrow>
          if length ts \<noteq> 2 then (Some ValueError, self)
          else if ts ! 0 \<ge> ts ! 1 then (Some ValueError, self)
          else (None, self\<lparr>time_range := ts\<rparr>)
      | _ \<Rightarrow> (Some TypeError, self))"

definition set_frequency_range :: "pyval \<Rightarrow> setter" where
  "set_frequency_range selected_range self =
     (case selected_range of
        PyQuantity fs \<Rightarrow>
          if length fs \<noteq> 2 then (Some ValueError, self)
          else if fs ! 0 \<ge> fs ! 1 then (Some ValueError, self)
          else (None, self\<lparr>frequency_range := fs\<rparr>)
      | _ \<Rightarrow> (Some TypeError, self))"

definition set_edge_channels_to_remove :: "pyval \<Rightarrow> setter" where
  "set_edge_channels_to_remove channels self =
     (case channels of
        PyTuple cs \<Rightarrow>
          if length cs \<noteq> 2 then (Some IndexError, self)
          else if \<not> list_all isinstance_int cs then (Some TypeError, self)
          else (None, self\<lparr>edge_channels_to_remove := channels\<rparr>)
      | _ \<Rightarrow>
          if \<not> isinstance_int channels then (Some TypeError, self)
          else (None, self\<lparr>edge_channels_to_remove := channels\<rparr>))"

text \<open>Running a setter inside a constructor: an exception ends the construction.\<close>

definition then_set :: "error + config \<Rightarrow> setter \<Rightarrow> error + config" where
  "then_set r f =
     (case r of
        Inl e \<Rightarrow> Inl e
      | Inr c \<Rightarrow> (case f c of (Some e, _) \<Rightarrow> Inl e | (None, c') \<Rightarrow> Inr c'))"

text \<open>
  \<open>_ProcessingConfiguration.__init__\<close>. Attributes are assigned in the source's order;
  the four validated ones go through their setters. An attribute not yet assigned is
  shown with a placeholder (\<open>[]\<close>, \<open>PyNone\<close>) that no successful construction keeps.
  \<open>via_isot\<close> is astropy's conversion of a time to its ISO string and back.
\<close>

definition config_init ::
  "(real \<Rightarrow> real) \<Rightarrow> real \<Rightarrow> real \<Rightarrow> real \<Rightarrow> real \<Rightarrow> int list \<Rightarrow> error + config" where
  "config_init via_isot tmin tmax fmin fmax beams =
     (let self0 = \<lparr>available_beams = beams, time_min = tmin, time_max = tmax,
                    frequency_min = fmin, frequency_max = fmax,
                    time_range = [], frequency_range = [], beam = PyNone,
                    dispersion_measure = PyNone, rotation_measure = PyNone,
                    rebin_dt = None, rebin_df = None, jump_correction = False,
                    dreambeam_inputs = (PyNone, PyNone, PyNone),
                    correct_bandpass = False, edge_channels_to_remove = PyNone\<rparr>;
          r1 = then_set (Inr self0) (set_time_range (PyTime [via_isot tmin, via_isot tmax]));
          r2 = then_set r1 (set_frequency_range (PyQuantity [fmin, fmax]));
          r3 = then_set r2 (set_beam (PyInt 0));
          r4 = map_sum id (\<lambda>self. self\<lparr>dispersion_measure := PyNone, rotation_measure := PyNone,
                                       rebin_dt := None, rebin_df := None,
                                       jump_correction := False,
                                       dreambeam_inputs := (PyNone, PyNone, PyNone),
                                       correct_bandpass := True\<rparr>) r3
      in then_set r4 (set_edge_channels_to_remove (PyInt 0)))"

section \<open>Data arrays\<close>

text \<open>
  An array cell is \<open>None\<close> when it holds nan. The assembled cube has shape
  (time, frequency, 2, 2): a list of time rows, each a list of 2 x 2 matrices, together
  with its frequency-axis length (known to numpy also when there is no time row). After
  the Stokes reduction the data has shape (time, frequency, polarization).
\<close>

type_synonym matrix = "complex option list list"

record cube =
  cube_nfreqs :: nat
  cube_cells :: "matrix list list"

record tfp =
  tfp_nfreqs :: nat
  tfp_npols :: nat
  tfp_cells :: "real option list list list"

definition matrix_ok :: "matrix \<Rightarrow> bool" where
  "matrix_ok m = (length m = 2 \<and> list_all (\<lambda>r. length r = 2) m)"

definition cube_ok :: "cube \<Rightarrow> bool" where
  "cube_ok d =
     list_all (\<lambda>row. length row = cube_nfreqs d \<and> list_all matrix_ok row) (cube_cells d)"

definition tfp_ok :: "tfp \<Rightarrow> bool" where
  "tfp_ok d =
     list_all (\<lambda>row. length row = tfp_nfreqs d \<and> list_all (\<lambda>c. length c = tfp_npols d) row)
       (tfp_cells d)"

text \<open>Splitting an axis of length \<open>k * n\<close> into \<open>k\<close> consecutive groups of \<open>n\<close> (reshape).\<close>

definition chunks :: "nat \<Rightarrow> 'a list \<Rightarrow> 'a list list" where
  "chunks n xs = map (\<lambda>i. take n (drop (i * n) xs)) [0..<length xs div n]"

section \<open>Spectra._correct_bandpass and Spectra._remove_edge_channels\<close>

text \<open>
  Both reshape (time, frequency, 2, 2) into (time, subband, channel, 2, 2) with
  \<open>int(n_freqs / n_channels)\<close> subbands. \<open>n_channels\<close> is the int32 attribute of the
  reader, so a zero divisor gives an infinity or nan and \<open>int()\<close> raises. A reshape
  raises ValueError on a negative dimension or when the number of elements changes.
\<close>

definition subband_count :: "cube \<Rightarrow> int \<Rightarrow> error + nat" where
  "subband_count d nchan =
     (case py_int_of_float (np_divide (real (cube_nfreqs d)) (real_of_int nchan)) of
        Inl e \<Rightarrow> Inl e
      | Inr nsb \<Rightarrow>
          if nchan < 0 then Inl ValueError
          else if cube_cells d \<noteq> [] \<and> nsb * nchan \<noteq> int (cube_nfreqs d) then Inl ValueError
          else Inr (nat nsb))"

definition scale_matrix :: "real \<Rightarrow> matrix \<Rightarrow> matrix" where
  "scale_matrix g m = map (map (map_option (\<lambda>z. z * complex_of_real g))) m"

definition correct_bandpass_with :: "real list \<Rightarrow> cube \<Rightarrow> int \<Rightarrow> error + cube" where
  "correct_bandpass_with bandpass d nchan =
     (case subband_count d nchan of
        Inl e \<Rightarrow> Inl e
      | Inr nsb \<Rightarrow>
          if int (length bandpass) \<noteq> nchan \<and> length bandpass \<noteq> 1 then Inl ValueError
          else
            let gain = (\<lambda>c. if length bandpass = 1 then bandpass ! 0 else bandpass ! c)
            in Inr (d\<lparr>cube_cells :=
                       map (\<lambda>row. concat (map (\<lambda>sb. map (\<lambda>(c, m). scale_matrix (gain c) m)
                                                      (zip [0..<length sb] sb))
                                             (chunks (nat nchan) row)))
                         (cube_cells d)\<rparr>))"

definition nan_fill :: "matrix \<Rightarrow> matrix" where
  "nan_fill m = map (map (\<lambda>_. None)) m"

text \<open>\<open>xs[start:stop] = np.nan\<close> along the channel axis of one subband.\<close>

definition assign_nan :: "int option \<Rightarrow> int option \<Rightarrow> matrix list \<Rightarrow> matrix list" where
  "assign_nan start stop xs =
     (let n = length xs;
          s = (case start of None \<Rightarrow> 0 | Some i \<Rightarrow> slice_bound n i);
          e = (case stop of None \<Rightarrow> n | Some i \<Rightarrow> slice_bound n i)
      in map (\<lambda>(j, m). if s \<le> j \<and> j < e then nan_fill m else m) (zip [0..<n] xs))"

definition mask_subband :: "int \<Rightarrow> int \<Rightarrow> int \<Rightarrow> matrix list \<Rightarrow> matrix list" where
  "mask_subband nchan lower_edge_channels higher_edge_channels sb =
     assign_nan (Some (nchan - higher_edge_channels)) None
       (assign_nan None (Some lower_edge_channels) sb)"

definition remove_edge_channels :: "cube \<Rightarrow> int \<Rightarrow> int \<Rightarrow> int \<Rightarrow> error + cube" where
  "remove_edge_channels d nchan lower_edge_channels higher_edge_channels =
     (case subband_count d nchan of
        Inl e \<Rightarrow> Inl e
      | Inr nsb \<Rightarrow>
          Inr (d\<lparr>cube_cells :=
                   map (\<lambda>row. concat (map (mask_subband nchan lower_edge_channels
                                              higher_edge_channels)
                                         (chunks (nat nchan) row)))
                     (cube_cells d)\<rparr>))"

text \<open>The channels of subband \<open>s\<close> in one time row, and how many of them are nan.\<close>

definition is_nan :: "matrix \<Rightarrow> bool" where
  "is_nan m = (m \<noteq> [] \<and> list_all (\<lambda>r. r \<noteq> [] \<and> list_all (\<lambda>z. z = None) r) m)"

definition subband_of :: "nat \<Rightarrow> nat \<Rightarrow> matrix list \<Rightarrow> matrix list" where
  "subband_of nchan s row = take nchan (drop (s * nchan) row)"

definition nan_count :: "matrix list \<Rightarrow> nat" where
  "nan_count sb = length (filter is_nan sb)"

section \<open>Spectra._time_frequency_rebin\<close>

text \<open>\<open>np.nanmean\<close> of one bin: the mean of the cells that are not nan, nan when none is.\<close>

definition nanmean :: "real option list \<Rightarrow> real option" where
  "nanmean xs =
     (let vs = List.map_filter id xs
      in if vs = [] then None else Some (sum_list vs / real (length vs)))"

definition mean :: "real list \<Rightarrow> real" where
  "mean xs = sum_list xs / real (length xs)"

definition np_divide_by :: "real \<Rightarrow> float_val \<Rightarrow> float_val" where
  "np_divide_by a d =
     (case d of Finite b \<Rightarrow> np_divide a b | PosInf \<Rightarrow> Finite 0 | NegInf \<Rightarrow> Finite 0
      | NotANumber \<Rightarrow> NotANumber)"

text \<open>
  The bin arithmetic shared by both axes, for an axis of \<open>n_i\<close> samples, a requested bin
  width \<open>rebin\<close> and a native step \<open>step\<close>:
  \<open>bins = int(np.floor(rebin / step))\<close>, \<open>n = int(np.floor(n_i / bins))\<close>,
  \<open>leftover = n_i % n\<close>. Both divisions are between Python integers and raise
  ZeroDivisionError on a zero divisor. A negative \<open>n\<close> reaches the reshape, which raises
  ValueError. The result is \<open>(n, leftover)\<close>.
\<close>

definition rebin_counts :: "nat \<Rightarrow> real \<Rightarrow> float_val \<Rightarrow> error + (nat \<times> nat)" where
  "rebin_counts n_i rebin step =
     (case py_int_of_float (float_map (\<lambda>x. real_of_int \<lfloor>x\<rfloor>) (np_divide_by rebin step)) of
        Inl e \<Rightarrow> Inl e
      | Inr bins \<Rightarrow>
          if bins = 0 then Inl ZeroDivisionError
          else
            let n = \<lfloor>real n_i / real_of_int bins\<rfloor>
            in if n = 0 then Inl ZeroDivisionError
               else if n < 0 then Inl ValueError
               else Inr (nat n, n_i mod nat n))"

text \<open>The slice bound \<open>-leftover if leftover != 0 else n_i\<close> and the bin length.\<close>

definition keep_stop :: "nat \<Rightarrow> nat \<Rightarrow> int" where
  "keep_stop n_i leftover = (if leftover \<noteq> 0 then - int leftover else int n_i)"

definition bin_length :: "nat \<Rightarrow> nat \<Rightarrow> nat \<Rightarrow> nat" where
  "bin_length n_i leftover n = nat (trunc (real (n_i - leftover) / real n))"

text \<open>A reshaped 1-D axis (\<open>times\<close>, \<open>freqs\<close>) averaged per bin.\<close>

definition rebin_axis :: "nat \<Rightarrow> nat \<Rightarrow> nat \<Rightarrow> real list \<Rightarrow> error + real list" where
  "rebin_axis n_i leftover n axis =
     (let kept = py_slice None (Some (keep_stop n_i leftover)) axis;
          bl = bin_length n_i leftover n
      in if length kept \<noteq> n * bl then Inl ValueError
         else Inr (map mean (chunks bl kept)))"

definition time_rebin :: "real \<Rightarrow> real \<Rightarrow> tfp \<Rightarrow> real list \<Rightarrow> error + (tfp \<times> real list)" where
  "time_rebin rebin dt_s d tms =
     (let ntimes_i = length (tfp_cells d)
      in case rebin_counts ntimes_i rebin (Finite dt_s) of
           Inl e \<Rightarrow> Inl e
         | Inr (ntimes, tleftover) \<Rightarrow>
             let kept = py_slice None (Some (keep_stop ntimes_i tleftover)) (tfp_cells d);
                 bl = bin_length ntimes_i tleftover ntimes;
                 binned = map (\<lambda>rows. map (\<lambda>f. map (\<lambda>p. nanmean (map (\<lambda>r. r ! f ! p) rows))
                                                  [0..<tfp_npols d])
                                         [0..<tfp_nfreqs d])
                            (chunks bl kept)
             in case rebin_axis ntimes_i tleftover ntimes tms of
                  Inl e \<Rightarrow> Inl e
                | Inr tms' \<Rightarrow> Inr (d\<lparr>tfp_cells := binned\<rparr>, tms'))"

definition freq_rebin :: "real \<Rightarrow> float_val \<Rightarrow> tfp \<Rightarrow> real list \<Rightarrow> error + (tfp \<times> real list)" where
  "freq_rebin rebin df_hz d freqs =
     (let nfreqs_i = tfp_nfreqs d
      in case rebin_counts nfreqs_i rebin df_hz of
           Inl e \<Rightarrow> Inl e
         | Inr (nfreqs, fleftover) \<Rightarrow>
             let bl = bin_length nfreqs_i fleftover nfreqs;
                 binned = map (\<lambda>row. map (\<lambda>cs. map (\<lambda>p. nanmean (map (\<lambda>c. c ! p) cs))
                                                  [0..<tfp_npols d])
                                        (chunks bl (py_slice None (Some (keep_stop nfreqs_i fleftover)) row)))
                            (tfp_cells d)
             in case rebin_axis nfreqs_i fleftover nfreqs freqs of
                  Inl e \<Rightarrow> Inl e
                | Inr freqs' \<Rightarrow> Inr (d\<lparr>tfp_nfreqs := nfreqs, tfp_cells := binned\<rparr>, freqs'))"

text \<open>
  \<open>_time_frequency_rebin\<close>: the time block runs first when \<open>rebin_dt\<close> is set, then the
  frequency block when \<open>rebin_df\<close> is set, on the result of the first. The result is
  \<open>(freqs, times, data)\<close>.
\<close>

definition time_frequency_rebin ::
  "config \<Rightarrow> real \<Rightarrow> float_val \<Rightarrow> tfp \<Rightarrow> real list \<Rightarrow> real list
     \<Rightarrow> error + (real list \<times> real list \<times> tfp)" where
  "time_frequency_rebin cfg dt_s df_hz d tms freqs =
     (case (case rebin_dt cfg of
              None \<Rightarrow> Inr (d, tms)
            | Some r \<Rightarrow> time_rebin r dt_s d tms) of
        Inl e \<Rightarrow> Inl e
      | Inr (d1, tms1) \<Rightarrow>
          (case (case rebin_df cfg of
                   None \<Rightarrow> Inr (d1, freqs)
                 | Some r \<Rightarrow> freq_rebin r df_hz d1 freqs) of
             Inl e \<Rightarrow> Inl e
           | Inr (d2, freqs2) \<Rightarrow> Inr (freqs2, tms1, d2)))"

section \<open>The reader: Spectra.__init__, _select_data and get\<close>

text \<open>
  The helper module \<open>nenupy.io.tf_utils\<close> and astropy's time conversion are not among
  the sources at hand. Their functions are parameters of the model, and every result
  below holds for any behaviour of them. \<open>assemble_blocks\<close> stands for
  \<open>spectra_data_to_matrix\<close> followed by \<open>blocks_to_tf_data\<close>.
\<close>

record tf_utils =
  sort_beam_edges :: "32 word list \<Rightarrow> 32 word \<Rightarrow> error + (string \<times> int \<times> int) list"
  assemble_blocks :: "block list \<Rightarrow> 32 word \<Rightarrow> 32 word \<Rightarrow> error + cube"
  via_isot :: "real \<Rightarrow> real"
  compute_spectra_time :: "real list \<Rightarrow> int \<Rightarrow> real \<Rightarrow> real list"
  compute_spectra_frequencies :: "real list \<Rightarrow> int \<Rightarrow> float_val \<Rightarrow> real list"
  get_bandpass :: "int \<Rightarrow> real list"
  compute_stokes_parameters :: "cube \<Rightarrow> pyval \<Rightarrow> error + tfp"

record spectra = file_params +
  block_start_unix :: "real list"
  subband_start_hz :: "real list"
  beam_indices_dict :: "(string \<times> int \<times> int) list"
  spectra_data :: cube
  configuration :: config

definition block_start :: "block \<Rightarrow> real" where
  "block_start b = real (unat (TIMESTAMP b)) + real (unat (BLOCKSEQNUMBER b)) / SUBBAND_WIDTH"

definition good_blocks :: "block list \<Rightarrow> bool list \<Rightarrow> block list" where
  "good_blocks blocks bad_block_mask = map fst (filter (\<lambda>(b, bad). \<not> bad) (zip blocks bad_block_mask))"

text \<open>
  \<open>Spectra.__init__\<close>. The arguments of the configuration constructor are evaluated
  left to right: \<open>_block_start_unix[0]\<close> and \<open>_subband_start_hz[0]\<close> raise IndexError
  on an empty array.
\<close>

definition spectra_init :: "tf_utils \<Rightarrow> block list \<Rightarrow> error + spectra" where
  "spectra_init u file =
     (case lazy_load_data file of
        Inl e \<Rightarrow> Inl e
      | Inr (p, blocks) \<Rightarrow>
     (case get_bad_data_mask blocks of
        Inl e \<Rightarrow> Inl e
      | Inr bad_block_mask \<Rightarrow>
     (case blocks of
        [] \<Rightarrow> Inl IndexError
      | first_block # _ \<Rightarrow>
          let good = good_blocks blocks bad_block_mask;
              bsu = map block_start good;
              ssh = map (\<lambda>c. real_of_int (sint (channel c)) * SUBBAND_WIDTH)
                      (beamlet_data first_block)
          in
     (case sort_beam_edges u (map beam_id (beamlet_data first_block)) (n_channels p) of
        Inl e \<Rightarrow> Inl e
      | Inr beam_dict \<Rightarrow>
     (case assemble_blocks u good (n_time_per_block p) (n_channels p) of
        Inl e \<Rightarrow> Inl e
      | Inr assembled \<Rightarrow>
          if bsu = [] then Inl IndexError
          else if ssh = [] then Inl IndexError
          else
     (case strs_astype_int (map fst beam_dict) of
        Inl e \<Rightarrow> Inl e
      | Inr beams \<Rightarrow>
     (case config_init (via_isot u)
             (hd bsu)
             (last bsu + real_of_int (sint (n_time_per_block p)) * dt p)
             (hd ssh)
             (last ssh + SUBBAND_WIDTH)
             beams of
        Inl e \<Rightarrow> Inl e
      | Inr cfg \<Rightarrow>
          Inr \<lparr>n_time_per_block = n_time_per_block p, n_channels = n_channels p,
               n_subbands = n_subbands p, dt = dt p, df = df p,
               block_start_unix = bsu, subband_start_hz = ssh,
               beam_indices_dict = beam_dict, spectra_data = assembled,
               configuration = cfg\<rparr>)))))))"

text \<open>
  The time part of \<open>_select_data\<close>: the bounding blocks are found with
  \<open>argmin(abs(ceil(starts - t)))\<close>, the sample inside the block with
  \<open>int(np.round((t - start) / dt))\<close>.
\<close>

record time_sel =
  block_idx_min :: nat
  block_idx_max :: nat
  time_idx_min_in_block :: int
  time_idx_max_in_block :: int
  time_idx_min :: int
  time_idx_max :: int

definition nearest_index :: "real list \<Rightarrow> real \<Rightarrow> error + nat" where
  "nearest_index starts t = np_argmin (map (\<lambda>s. \<bar>\<lceil>s - t\<rceil>\<bar>) starts)"

definition index_in_block :: "real \<Rightarrow> real \<Rightarrow> real \<Rightarrow> error + int" where
  "index_in_block t start dt_sec =
     py_int_of_float (float_map (\<lambda>x. real_of_int (np_round x)) (np_divide (t - start) dt_sec))"

definition time_selection :: "spectra \<Rightarrow> error + time_sel" where
  "time_selection self =
     (case time_range (configuration self) of
        [tmin, tmax] \<Rightarrow>
          (case nearest_index (block_start_unix self) tmin of
             Inl e \<Rightarrow> Inl e
           | Inr bmin \<Rightarrow>
          (case nearest_index (block_start_unix self) tmax of
             Inl e \<Rightarrow> Inl e
           | Inr bmax \<Rightarrow>
          (case index_in_block tmin (block_start_unix self ! bmin) (dt self) of
             Inl e \<Rightarrow> Inl e
           | Inr imin \<Rightarrow>
          (case index_in_block tmax (block_start_unix self ! bmax) (dt self) of
             Inl e \<Rightarrow> Inl e
           | Inr imax \<Rightarrow>
               Inr \<lparr>block_idx_min = bmin, block_idx_max = bmax,
                    time_idx_min_in_block = imin, time_idx_max_in_block = imax,
                    time_idx_min = int bmin * sint (n_time_per_block self) + imin,
                    time_idx_max = int bmax * sint (n_time_per_block self) + imax\<rparr>))))
      | _ \<Rightarrow> Inl ValueError)"

definition slice_freq :: "int \<Rightarrow> int \<Rightarrow> cube \<Rightarrow> cube" where
  "slice_freq a b d =
     \<lparr>cube_nfreqs = slice_bound (cube_nfreqs d) b - slice_bound (cube_nfreqs d) a,
      cube_cells = map (py_slice (Some a) (Some b)) (cube_cells d)\<rparr>"

definition slice_time :: "int \<Rightarrow> int \<Rightarrow> cube \<Rightarrow> cube" where
  "slice_time a b d = d\<lparr>cube_cells := py_slice (Some a) (Some b) (cube_cells d)\<rparr>"

text \<open>
  \<open>_select_data\<close>. When the two resolved time indices coincide the method logs the
  warning "Time selection leads to empty dataset." and returns \<open>None\<close>; otherwise it
  returns the triple \<open>(frequency_hz, time_unix, selected_data)\<close>. The beam's frequency
  range is looked up under the key \<open>str(self.configuration.beam)\<close>.
\<close>

definition select_data :: "tf_utils \<Rightarrow> spectra \<Rightarrow> error + (real list \<times> real list \<times> cube) option" where
  "select_data u self =
     (case time_selection self of
        Inl e \<Rightarrow> Inl e
      | Inr ts \<Rightarrow>
          if time_idx_min ts = time_idx_max ts then Inr None
          else
            let ntb = sint (n_time_per_block self);
                nch = sint (n_channels self);
                time_unix =
                  py_slice (Some (time_idx_min_in_block ts))
                           (Some (- (ntb - time_idx_max_in_block ts) + 1))
                    (compute_spectra_time u
                       (py_slice (Some (int (block_idx_min ts))) (Some (int (block_idx_max ts) + 1))
                          (block_start_unix self))
                       ntb (dt self))
            in
     (case frequency_range (configuration self) of
        [fmin, fmax] \<Rightarrow>
     (case map_of (beam_indices_dict self) (py_str (beam (configuration self))) of
        None \<Rightarrow> Inl KeyError
      | Some (beam_idx_start, beam_idx_stop) \<Rightarrow>
     (case py_int_of_float (np_divide (real_of_int beam_idx_start) (real_of_int nch)) of
        Inl e \<Rightarrow> Inl e
      | Inr sb_lo \<Rightarrow>
     (case py_int_of_float (np_divide (real_of_int (beam_idx_stop + 1)) (real_of_int nch)) of
        Inl e \<Rightarrow> Inl e
      | Inr sb_hi \<Rightarrow>
          let subbands_in_beam = py_slice (Some sb_lo) (Some sb_hi) (subband_start_hz self)
          in
     (case nearest_index subbands_in_beam fmin of
        Inl e \<Rightarrow> Inl e
      | Inr sb_idx_min \<Rightarrow>
     (case nearest_index subbands_in_beam fmax of
        Inl e \<Rightarrow> Inl e
      | Inr sb_idx_max \<Rightarrow>
          let frequency_idx_min = int sb_idx_min * nch;
              frequency_idx_max = (int sb_idx_max + 1) * nch;
              frequency_hz =
                compute_spectra_frequencies u
                  (py_slice (Some (int sb_idx_min)) (Some (int sb_idx_max + 1)) subbands_in_beam)
                  nch (df self);
              selected_data =
                slice_freq frequency_idx_min frequency_idx_max
                  (slice_time (time_idx_min ts) (time_idx_max ts + 1)
                     (slice_freq beam_idx_start (beam_idx_stop + 1) (spectra_data self)))
          in Inr (Some (frequency_hz, time_unix, selected_data)))))))
      | _ \<Rightarrow> Inl ValueError))"

text \<open>
  The test \<open>edge_chans not in [0, (0, 0)]\<close> of \<open>get\<close> compares with \<open>==\<close>, and
  \<open>False == 0\<close> holds in Python. The two counts handed to \<open>_remove_edge_channels\<close> are
  the entries of a tuple, or the single value twice.
\<close>

definition edge_chans_zero :: "pyval \<Rightarrow> bool" where
  "edge_chans_zero v =
     (case v of
        PyTuple [a, b] \<Rightarrow> py_int_value a = Some 0 \<and> py_int_value b = Some 0
      | PyTuple _ \<Rightarrow> False
      | _ \<Rightarrow> py_int_value v = Some 0)"

definition edge_chans_pair :: "pyval \<Rightarrow> error + (int \<times> int)" where
  "edge_chans_pair v =
     (case v of
        PyTuple cs \<Rightarrow>
          (case map py_int_value cs of
             Some a # Some b # _ \<Rightarrow> Inr (a, b)
           | _ \<Rightarrow> Inl TypeError)
      | _ \<Rightarrow> (case py_int_value v of Some a \<Rightarrow> Inr (a, a) | None \<Rightarrow> Inl TypeError))"

record sdata =
  sdata_data :: tfp
  sdata_time :: "real list"
  sdata_freq :: "real list"
  sdata_polar :: pyval

text \<open>
  \<open>Spectra.get\<close>. The first statement unpacks the result of \<open>_select_data\<close> into three
  names; unpacking \<open>None\<close> raises TypeError.
\<close>

definition get :: "tf_utils \<Rightarrow> spectra \<Rightarrow> pyval \<Rightarrow> error + sdata" where
  "get u self stokes =
     (case select_data u self of
        Inl e \<Rightarrow> Inl e
      | Inr None \<Rightarrow> Inl TypeError
      | Inr (Some (frequency_hz, time_unix, d)) \<Rightarrow>
          let cfg = configuration self; nch = sint (n_channels self)
          in
     (case (if correct_bandpass cfg then correct_bandpass_with (get_bandpass u nch) d nch
            else Inr d) of
        Inl e \<Rightarrow> Inl e
      | Inr d1 \<Rightarrow>
     (case (if \<not> edge_chans_zero (edge_channels_to_remove cfg)
            then (case edge_chans_pair (edge_channels_to_remove cfg) of
                    Inl e \<Rightarrow> Inl e
                  | Inr (lo, hi) \<Rightarrow> remove_edge_channels d1 nch lo hi)
            else Inr d1) of
        Inl e \<Rightarrow> Inl e
      | Inr d2 \<Rightarrow>
     (case compute_stokes_parameters u d2 stokes of
        Inl e \<Rightarrow> Inl e
      | Inr d3 \<Rightarrow>
     (case time_frequency_rebin cfg (dt self) (df self) d3 time_unix frequency_hz of
        Inl e \<Rightarrow> Inl e
      | Inr (freqs, tms, d4) \<Rightarrow>
          Inr \<lparr>sdata_data = d4, sdata_time = tms, sdata_freq = freqs, sdata_polar = stokes\<rparr>)))))"

text \<open>Sample blocks used to run the definitions on concrete inputs.\<close>

definition sample_beamlet :: "32 word \<Rightarrow> 32 word \<Rightarrow> beamlet" where
  "sample_beamlet b c = \<lparr>lane = 0, beam_id = b, channel = c, fft0 = [], fft1 = []\<rparr>"

definition sample_block :: "64 word \<Rightarrow> 64 word \<Rightarrow> 64 word \<Rightarrow> 32 word \<Rightarrow> block" where
  "sample_block i ts sq nb =
     \<lparr>idx = i, TIMESTAMP = ts, BLOCKSEQNUMBER = sq, fftlen = 2, nfft2int = 1, fftovlp = 0,
      apodisation = 0, nffte = 2, nbchan = nb,
      beamlet_data = [sample_beamlet 0 200, sample_beamlet 0 201]\<rparr>"




text \<open>The configuration a successful \<open>config_init\<close> returns.\<close>

definition default_config ::
  "(real \<Rightarrow> real) \<Rightarrow> real \<Rightarrow> real \<Rightarrow> real \<Rightarrow> real \<Rightarrow> int list \<Rightarrow> config" where
  "default_config cv tmin tmax fmin fmax beams =
     \<lparr>available_beams = beams, time_min = tmin, time_max = tmax,
      frequency_min = fmin, frequency_max = fmax,
      time_range = [cv tmin, cv tmax], frequency_range = [fmin, fmax],
      beam = PyInt 0, dispersion_measure = PyNone, rotation_measure = PyNone,
      rebin_dt = None, rebin_df = None, jump_correction = False,
      dreambeam_inputs = (PyNone, PyNone, PyNone),
      correct_bandpass = True, edge_channels_to_remove = PyInt 0\<rparr>"

text \<open>Sample helper functions, a three-block file whose middle block has a zero start
  index, and a one-block file whose only block has a negative subband count.\<close>

definition sample_utils :: tf_utils where
  "sample_utils =
     \<lparr>sort_beam_edges = (\<lambda>beams nch. Inr [(''0'', 0, 3)]),
      assemble_blocks = (\<lambda>blocks ntb nch. Inr \<lparr>cube_nfreqs = 4, cube_cells = []\<rparr>),
      via_isot = (\<lambda>t. t),
      compute_spectra_time = (\<lambda>starts ntb step. starts),
      compute_spectra_frequencies = (\<lambda>starts nch step. starts),
      get_bandpass = (\<lambda>nch. replicate (nat nch) 1),
      compute_stokes_parameters =
        (\<lambda>d stokes. Inr \<lparr>tfp_nfreqs = cube_nfreqs d, tfp_npols = 1, tfp_cells = []\<rparr>)\<rparr>"


definition invalid_file :: "block list" where
  "invalid_file = [sample_block 1 100 0 (- 2)]"

text \<open>The reader obtained from \<open>sample_file\<close> with \<open>sample_utils\<close>.\<close>

definition sample_spectra :: spectra where
  "sample_spectra =
     \<lparr>n_time_per_block = 2, n_channels = 2, n_subbands = 2,
      dt = 2 / 195312.5, df = Finite (195312.5 / 2),
      block_start_unix = [100, 102],
      subband_start_hz = [200 * 195312.5, 201 * 195312.5],
      beam_indices_dict = [(''0'', 0, 3)],
      spectra_data = \<lparr>cube_nfreqs = 4, cube_cells = []\<rparr>,
      configuration =
        default_config (\<lambda>t. t) 100 (102 + 2 * (2 / 195312.5))
          (200 * 195312.5) (201 * 195312.5 + 195312.5) [0]\<rparr>"

text \<open>
  The sample reader with a time range outside the file (accepted by the setter), and the
  sample reader with a beam dictionary that has no entry for beam 0.
\<close>

definition outside_spectra :: spectra where
  "outside_spectra =
     sample_spectra\<lparr>configuration :=
       snd (set_time_range (PyTime [202, 202 + 1 / 1000000]) (configuration sample_spectra))\<rparr>"


text \<open>A cube with one time sample and one subband of four channels.\<close>

definition sample_matrix :: matrix where
  "sample_matrix = [[Some 1, Some 0], [Some 0, Some 1]]"

definition sample_cube :: cube where
  "sample_cube =
     \<lparr>cube_nfreqs = 4,
      cube_cells = [[sample_matrix, sample_matrix, sample_matrix, sample_matrix]]\<rparr>"

section \<open>Properties of the validity mask\<close>

lemma mask_add_idem: "mask_add xs xs = xs"
  by (induction xs) (simp_all add: mask_add_def)

lemma mask_add_nth:
  "i < length xs \<Longrightarrow> length ys = length xs \<Longrightarrow> mask_add xs ys ! i = (xs ! i \<or> ys ! i)"
  by (simp add: mask_add_def)

lemma length_mask_add: "length (mask_add xs ys) = min (length xs) (length ys)"
  by (simp add: mask_add_def)

lemma get_bad_data_mask_nonempty:
  "blocks \<noteq> [] \<Longrightarrow> get_bad_data_mask blocks = Inr (bad_mask_reference blocks)"
  by (simp add: get_bad_data_mask_def bad_mask_reference_def mask_add_idem)

lemma bad_mask_reference_length: "length (bad_mask_reference blocks) = length blocks"
  by (simp add: bad_mask_reference_def length_mask_add)

lemma bad_mask_reference_nth:
  assumes "i < length blocks"
  shows "bad_mask_reference blocks ! i =
           ((idx (blocks ! i) = 0 \<and> i \<noteq> 0) \<or> sint (nbchan (blocks ! i)) < 0)"
proof -
  have "bad_mask_reference blocks ! i =
          (((map (\<lambda>b. idx b = 0) blocks)[0 := False]) ! i \<or> sint (nbchan (blocks ! i)) < 0)"
    using assms by (simp add: bad_mask_reference_def mask_add_nth)
  also have "((map (\<lambda>b. idx b = 0) blocks)[0 := False]) ! i = (idx (blocks ! i) = 0 \<and> i \<noteq> 0)"
    using assms by (cases i) simp_all
  finally show ?thesis .
qed

text \<open>
  Claim C1. For every block array of a file (at least one block), the mask exists, has one
  entry per block, and flags block \<open>i\<close> exactly when (its first-sample index is 0 and
  \<open>i\<close> is not 0) or its subband count field is negative; the source's sum with the
  start-index term taken twice is the same mask as the two-condition reference.
\<close>

theorem bad_data_mask_flags:
  assumes "blocks \<noteq> []"
  shows "\<exists>mask. get_bad_data_mask blocks = Inr mask
           \<and> length mask = length blocks
           \<and> (\<forall>i<length blocks.
                 mask ! i = ((idx (blocks ! i) = 0 \<and> i \<noteq> 0) \<or> sint (nbchan (blocks ! i)) < 0))
           \<and> mask = bad_mask_reference blocks"
  using assms
  by (simp add: get_bad_data_mask_nonempty bad_mask_reference_length bad_mask_reference_nth)

theorem bad_data_mask_flags_witness:
  "[sample_block 0 100 0 2, sample_block 0 101 0 2, sample_block 7 102 0 (- 2)] \<noteq> []
   \<and> get_bad_data_mask [sample_block 0 100 0 2, sample_block 0 101 0 2, sample_block 7 102 0 (- 2)]
       = Inr [False, True, True]"
  using bad_data_mask_flags [of "[sample_block 0 100 0 2, sample_block 0 101 0 2, sample_block 7 102 0 (- 2)]"]
  by (simp add: bad_mask_reference_def mask_add_def sample_block_def)

section \<open>Properties of the decoded file parameters\<close>







section \<open>Properties of the configuration setters\<close>




section \<open>Properties of the reader's construction\<close>







lemma good_blocks_all_bad:
  "list_all (\<lambda>b. b) bad_mask \<Longrightarrow> good_blocks blocks bad_mask = []"
  by (auto simp: good_blocks_def filter_empty_conv list_all_iff dest: set_zip_rightD)

text \<open>
  Claim C3. The claim says that opening a file in which every block is flagged invalid
  succeeds. In the source it does not: with every block flagged, no block start time is
  left, and whatever the helper functions do, \<open>Spectra.__init__\<close> ends in an exception
  (IndexError at \<open>self._block_start_unix[0]\<close> when the helpers succeed).
\<close>

theorem fully_invalid_file_raises:
  assumes "get_bad_data_mask file = Inr bad_mask" and "list_all (\<lambda>bad. bad) bad_mask"
  shows "\<exists>e. spectra_init u file = Inl e"
proof -
  have g: "good_blocks blocks bad_mask = []" for blocks
    using assms(2) by (rule good_blocks_all_bad)
  show ?thesis
  proof (cases "lazy_load_data file")
    case (Inl e)
    then show ?thesis by (simp add: spectra_init_def)
  next
    case (Inr r)
    obtain p blocks where r: "r = (p, blocks)" by (cases r)
    from Inr r have b: "blocks = file"
      by (auto simp: lazy_load_data_def Let_def split: list.splits if_splits)
    show ?thesis
      using Inr r b assms(1) g
      by (simp add: spectra_init_def Let_def split: list.splits sum.splits)
  qed
qed


lemma invalid_file_mask: "get_bad_data_mask invalid_file = Inr [True]"
  by (simp add: invalid_file_def get_bad_data_mask_def mask_add_def sample_block_def)

theorem fully_invalid_file_raises_witness:
  "get_bad_data_mask invalid_file = Inr [True] \<and> list_all (\<lambda>bad. bad) [True]
   \<and> (\<exists>e. spectra_init sample_utils invalid_file = Inl e)"
  using fully_invalid_file_raises [OF invalid_file_mask, of sample_utils] invalid_file_mask
  by simp

lemma lazy_load_invalid_file:
  "lazy_load_data invalid_file =
     Inr (\<lparr>n_time_per_block = 2, n_channels = 2, n_subbands = 2,
           dt = 2 / 195312.5, df = Finite (195312.5 / 2)\<rparr>, invalid_file)"
  by (simp add: invalid_file_def lazy_load_data_def sample_block_def np_abs32_def
      SUBBAND_WIDTH_def np_divide_def Let_def)

lemma invalid_file_index_error: "spectra_init sample_utils invalid_file = Inl IndexError"
proof -
  have g: "good_blocks [sample_block 1 100 0 (- 2)] [True] = []"
    by (simp add: good_blocks_def)
  show ?thesis
    by (simp add: spectra_init_def invalid_file_def lazy_load_invalid_file [unfolded invalid_file_def]
        invalid_file_mask [unfolded invalid_file_def] g Let_def sample_utils_def)
qed
















section \<open>Properties of the selection and of get\<close>

text \<open>
  Claim C2. The claim says that a query whose resolved time indices coincide returns an
  empty result and never raises. In the source \<open>_select_data\<close> does log the warning and
  return \<open>None\<close>, but \<open>get\<close> unpacks that result into three names at once, which
  raises TypeError.
\<close>

theorem get_empty_selection_raises:
  assumes "time_selection self = Inr ts" and "time_idx_min ts = time_idx_max ts"
  shows "select_data u self = Inr None \<and> get u self stokes = Inl TypeError"
proof -
  have s: "select_data u self = Inr None"
    using assms by (simp add: select_data_def)
  then show ?thesis by (simp add: get_def)
qed

lemma outside_time_range:
  "time_range (configuration outside_spectra) = [202, 202 + 1 / 1000000]"
  by (simp add: outside_spectra_def set_time_range_def)

lemma outside_fields:
  "block_start_unix outside_spectra = [100, 102]"
  "dt outside_spectra = 2 / 195312.5"
  "n_time_per_block outside_spectra = 2"
  by (simp_all add: outside_spectra_def sample_spectra_def)

lemma outside_time_selection:
  "time_selection outside_spectra =
     Inr \<lparr>block_idx_min = 1, block_idx_max = 1,
          time_idx_min_in_block = 9765625, time_idx_max_in_block = 9765625,
          time_idx_min = 9765627, time_idx_max = 9765627\<rparr>"
proof -
  have a: "nearest_index [100, 102] 202 = Inr 1"
    by (simp add: nearest_index_def np_argmin_def)
  have b: "nearest_index [100, 102] (202 + 1 / 1000000) = Inr 1"
    by (simp add: nearest_index_def np_argmin_def)
  have c: "index_in_block 202 102 (2 / 195312.5) = Inr 9765625"
    by (simp add: index_in_block_def np_divide_def float_map_def py_int_of_float_def
        np_round_def trunc_def Let_def)
  have d: "index_in_block (202 + 1 / 1000000) 102 (2 / 195312.5) = Inr 9765625"
    by (simp add: index_in_block_def np_divide_def float_map_def py_int_of_float_def
        np_round_def trunc_def Let_def)
  show ?thesis
    by (simp add: time_selection_def outside_time_range outside_fields a [simplified] b [simplified]
        c [simplified] d [simplified])
qed

theorem get_empty_selection_raises_witness:
  "time_selection outside_spectra =
     Inr \<lparr>block_idx_min = 1, block_idx_max = 1,
          time_idx_min_in_block = 9765625, time_idx_max_in_block = 9765625,
          time_idx_min = 9765627, time_idx_max = 9765627\<rparr>
   \<and> select_data sample_utils outside_spectra = Inr None
   \<and> get sample_utils outside_spectra (PyStr ''I'') = Inl TypeError"
  using get_empty_selection_raises [OF outside_time_selection, of sample_utils "PyStr ''I''"]
    outside_time_selection
  by simp







section \<open>Properties of the edge-channel masking\<close>

lemma trunc_of_nat_div:
  "0 < n \<Longrightarrow> trunc (real (k * n) / real n) = int k"
  by (simp add: trunc_def)

lemma subband_count_exact:
  assumes "0 < nchan" and "cube_nfreqs d = nsb * nat nchan"
  shows "subband_count d nchan = Inr nsb"
proof -
  have n: "real_of_int nchan = real (nat nchan)" using assms(1) by simp
  have "np_divide (real (cube_nfreqs d)) (real_of_int nchan) = Finite (real nsb)"
    using assms by (simp add: np_divide_def n del: of_nat_nat)
  moreover have "int nsb * nchan = int (cube_nfreqs d)"
    using assms by simp
  ultimately show ?thesis
    using assms(1) by (simp add: subband_count_def py_int_of_float_def trunc_def)
qed

lemma nth_concat_uniform:
  assumes "\<forall>ys \<in> set yss. length ys = n" and "i < length yss" and "c < n"
  shows "concat yss ! (i * n + c) = yss ! i ! c"
  using assms
proof (induction yss arbitrary: i)
  case Nil
  then show ?case by simp
next
  case (Cons ys yss)
  show ?case
  proof (cases i)
    case 0
    with Cons.prems show ?thesis by (simp add: nth_append)
  next
    case (Suc j)
    with Cons.prems have "concat yss ! (j * n + c) = yss ! j ! c"
      by (intro Cons.IH) auto
    moreover have "length ys = n" using Cons.prems by simp
    ultimately show ?thesis using Suc by (simp add: nth_append)
  qed
qed

lemma length_concat_uniform:
  "\<forall>ys \<in> set yss. length ys = n \<Longrightarrow> length (concat yss) = length yss * n"
  by (induction yss) simp_all

lemma length_chunks: "length (chunks n xs) = length xs div n"
  by (simp add: chunks_def)

lemma chunks_nth:
  "i < length xs div n \<Longrightarrow> chunks n xs ! i = take n (drop (i * n) xs)"
  by (simp add: chunks_def)

lemma chunk_length:
  assumes "length xs = k * n" and "i < k"
  shows "length (take n (drop (i * n) xs)) = n"
proof -
  have "Suc i * n \<le> k * n" using assms(2) by (intro mult_le_mono1) simp
  then show ?thesis using assms(1) by simp
qed

lemma chunks_all_length:
  assumes "length xs = k * n" and "0 < n"
  shows "\<forall>ys \<in> set (chunks n xs). length ys = n"
proof
  fix ys assume "ys \<in> set (chunks n xs)"
  then obtain i where i: "i < k" and ys: "ys = take n (drop (i * n) xs)"
    using assms by (auto simp: chunks_def)
  show "length ys = n" unfolding ys using assms(1) i by (rule chunk_length)
qed

lemma concat_chunks:
  assumes "length xs = k * n" and "0 < n"
  shows "concat (chunks n xs) = xs"
proof (rule nth_equalityI)
  have a: "\<forall>ys \<in> set (chunks n xs). length ys = n" using assms by (rule chunks_all_length)
  show l: "length (concat (chunks n xs)) = length xs"
    using assms by (simp add: length_concat_uniform [OF a] length_chunks)
  fix j assume "j < length (concat (chunks n xs))"
  then have j: "j < k * n" using l assms by simp
  have jd: "j div n < k" using j assms(2) by (simp add: less_mult_imp_div_less)
  have jm: "j mod n < n" using assms(2) by simp
  have "concat (chunks n xs) ! (j div n * n + j mod n) = chunks n xs ! (j div n) ! (j mod n)"
    using a jd jm assms by (intro nth_concat_uniform) (simp_all add: length_chunks)
  also have "\<dots> = take n (drop (j div n * n) xs) ! (j mod n)"
    using jd assms by (simp add: chunks_nth)
  also have "\<dots> = xs ! (j div n * n + j mod n)"
  proof -
    have "j div n * n \<le> j" by simp
    then have "j div n * n \<le> length xs" using j assms(1) by linarith
    then show ?thesis using jm by simp
  qed
  finally show "concat (chunks n xs) ! j = xs ! j" by simp
qed


lemma take_drop_concat_uniform:
  assumes "\<forall>ys \<in> set yss. length ys = n" and "s < length yss"
  shows "take n (drop (s * n) (concat yss)) = yss ! s"
proof (rule nth_equalityI)
  have l: "length (concat yss) = length yss * n" using assms(1) by (rule length_concat_uniform)
  have "Suc s * n \<le> length yss * n" using assms(2) by (intro mult_le_mono1) simp
  then have le: "s * n + n \<le> length (concat yss)" using l by simp
  have ln: "length (yss ! s) = n" using assms by simp
  show "length (take n (drop (s * n) (concat yss))) = length (yss ! s)"
    using le ln by simp
  fix c assume "c < length (take n (drop (s * n) (concat yss)))"
  then have c: "c < n" by simp
  have "take n (drop (s * n) (concat yss)) ! c = concat yss ! (s * n + c)"
    using c le by simp
  also have "\<dots> = yss ! s ! c" using assms c by (rule nth_concat_uniform)
  finally show "take n (drop (s * n) (concat yss)) ! c = yss ! s ! c" .
qed

lemma nan_fill_idem: "nan_fill (nan_fill m) = nan_fill m"
  by (simp add: nan_fill_def comp_def)

lemma is_nan_nan_fill: "matrix_ok m \<Longrightarrow> is_nan (nan_fill m)"
  by (auto simp: matrix_ok_def is_nan_def nan_fill_def list_all_iff)

lemma length_assign_nan: "length (assign_nan a b xs) = length xs"
  by (simp add: assign_nan_def Let_def)

lemma assign_nan_nth:
  assumes "j < length xs"
  shows "assign_nan a b xs ! j =
           (if (case a of None \<Rightarrow> 0 | Some i \<Rightarrow> slice_bound (length xs) i) \<le> j
               \<and> j < (case b of None \<Rightarrow> length xs | Some i \<Rightarrow> slice_bound (length xs) i)
            then nan_fill (xs ! j) else xs ! j)"
  using assms by (simp add: assign_nan_def Let_def)

lemma length_mask_subband: "length (mask_subband nchan lo hi sb) = length sb"
  by (simp add: mask_subband_def length_assign_nan)

lemma mask_subband_nth:
  assumes "length sb = nat nchan" and "j < nat nchan" and "0 \<le> lo" and "0 \<le> hi" and "hi \<le> nchan"
  shows "mask_subband nchan lo hi sb ! j =
           (if int j < lo \<or> nchan - hi \<le> int j then nan_fill (sb ! j) else sb ! j)"
proof -
  have a: "assign_nan None (Some lo) sb ! j = (if int j < lo then nan_fill (sb ! j) else sb ! j)"
    using assms by (auto simp: assign_nan_nth slice_bound_def)
  have "mask_subband nchan lo hi sb ! j =
          (if nchan - hi \<le> int j then nan_fill (assign_nan None (Some lo) sb ! j)
           else assign_nan None (Some lo) sb ! j)"
    using assms by (auto simp: mask_subband_def assign_nan_nth length_assign_nan slice_bound_def)
  then show ?thesis by (simp add: a nan_fill_idem)
qed

lemma mask_subband_zero:
  assumes "length sb = nat nchan" and "0 < nchan"
  shows "mask_subband nchan 0 0 sb = sb"
proof (rule nth_equalityI)
  show "length (mask_subband nchan 0 0 sb) = length sb" by (rule length_mask_subband)
  fix j assume "j < length (mask_subband nchan 0 0 sb)"
  then have j: "j < nat nchan" using assms by (simp add: length_mask_subband)
  then have "\<not> nchan \<le> int j" by linarith
  then show "mask_subband nchan 0 0 sb ! j = sb ! j"
    using assms j by (simp add: mask_subband_nth)
qed

lemma count_edges:
  assumes "a + b \<le> n"
  shows "length (filter (\<lambda>j. j < a \<or> n - b \<le> j) [0..<n]) = a + (b::nat)"
proof -
  have "[0..<n] = [0..<a] @ [a..<n - b] @ [n - b..<n]"
    using assms by (metis add_leD1 diff_le_self le_add_diff_inverse le_diff_conv2 add.commute upt_add_eq_append zero_le)
  moreover have "filter (\<lambda>j. j < a \<or> n - b \<le> j) [0..<a] = [0..<a]"
    by (rule filter_True) simp
  moreover have "filter (\<lambda>j. j < a \<or> n - b \<le> j) [a..<n - b] = []"
    by (rule filter_False) auto
  moreover have "filter (\<lambda>j. j < a \<or> n - b \<le> j) [n - b..<n] = [n - b..<n]"
    by (rule filter_True) simp
  ultimately show ?thesis using assms by simp
qed

lemma nan_count_mask_subband:
  assumes len: "length sb = nat nchan" and lo: "0 \<le> lo" and hi: "0 \<le> hi" and fit: "lo + hi \<le> nchan"
    and ok: "\<forall>m \<in> set sb. matrix_ok m" and clean: "\<forall>m \<in> set sb. \<not> is_nan m"
  shows "nan_count (mask_subband nchan lo hi sb) = nat lo + nat hi"
proof -
  let ?n = "nat nchan"
  let ?g = "\<lambda>j. if j < nat lo \<or> ?n - nat hi \<le> j then nan_fill (sb ! j) else sb ! j"
  have m: "mask_subband nchan lo hi sb = map ?g [0..<?n]"
  proof (rule nth_equalityI)
    show "length (mask_subband nchan lo hi sb) = length (map ?g [0..<?n])"
      using len by (simp add: length_mask_subband)
    fix j assume "j < length (mask_subband nchan lo hi sb)"
    then have j: "j < ?n" using len by (simp add: length_mask_subband)
    have "(int j < lo \<or> nchan - hi \<le> int j) = (j < nat lo \<or> ?n - nat hi \<le> j)"
      using lo hi fit j by auto
    then show "mask_subband nchan lo hi sb ! j = map ?g [0..<?n] ! j"
      using mask_subband_nth [OF len j lo hi] fit lo j by simp
  qed
  have "filter is_nan (map ?g [0..<?n]) = map ?g (filter (\<lambda>j. j < nat lo \<or> ?n - nat hi \<le> j) [0..<?n])"
    unfolding filter_map comp_def
  proof (rule arg_cong [where f = "map ?g"], rule filter_cong [OF refl])
    fix j assume "j \<in> set [0..<?n]"
    then have "sb ! j \<in> set sb" using len by simp
    then show "is_nan (?g j) = (j < nat lo \<or> ?n - nat hi \<le> j)"
      using ok clean by (simp add: is_nan_nan_fill)
  qed
  then have "nan_count (mask_subband nchan lo hi sb)
               = length (filter (\<lambda>j. j < nat lo \<or> ?n - nat hi \<le> j) [0..<?n])"
    by (simp add: nan_count_def m)
  also have "\<dots> = nat lo + nat hi"
    using lo hi fit by (intro count_edges) linarith
  finally show ?thesis .
qed


lemma cube_ok_row:
  "cube_ok d \<Longrightarrow> t < length (cube_cells d)
     \<Longrightarrow> length (cube_cells d ! t) = cube_nfreqs d \<and> (\<forall>m \<in> set (cube_cells d ! t). matrix_ok m)"
  by (auto simp: cube_ok_def list_all_iff)

lemma masked_row_nth:
  assumes "length row = nsb * nat nchan" and "0 < nchan" and "s < nsb" and "c < nat nchan"
    and "0 \<le> lo" and "0 \<le> hi" and "hi \<le> nchan"
  shows "concat (map (mask_subband nchan lo hi) (chunks (nat nchan) row)) ! (s * nat nchan + c) =
           (if int c < lo \<or> nchan - hi \<le> int c then nan_fill (row ! (s * nat nchan + c))
            else row ! (s * nat nchan + c))"
proof -
  let ?n = "nat nchan"
  have n: "0 < ?n" using assms(2) by simp
  have u: "\<forall>ys \<in> set (map (mask_subband nchan lo hi) (chunks ?n row)). length ys = ?n"
    using chunks_all_length [OF assms(1) n] by (auto simp: length_mask_subband)
  have l: "s < length (map (mask_subband nchan lo hi) (chunks ?n row))"
    using assms(1,3) n by (simp add: length_chunks)
  have cl: "length (take ?n (drop (s * ?n) row)) = ?n"
    using assms(1,3) by (rule chunk_length)
  have le: "s * ?n + c < length row"
  proof -
    have "Suc s * ?n \<le> nsb * ?n" using assms(3) by (intro mult_le_mono1) simp
    then show ?thesis using assms(1,4) by simp
  qed
  have "concat (map (mask_subband nchan lo hi) (chunks ?n row)) ! (s * ?n + c)
          = map (mask_subband nchan lo hi) (chunks ?n row) ! s ! c"
    using u l assms(4) by (rule nth_concat_uniform)
  also have "\<dots> = mask_subband nchan lo hi (take ?n (drop (s * ?n) row)) ! c"
    using assms(1,3) n by (simp add: length_chunks chunks_nth)
  also have "\<dots> = (if int c < lo \<or> nchan - hi \<le> int c
                     then nan_fill (take ?n (drop (s * ?n) row) ! c)
                     else take ?n (drop (s * ?n) row) ! c)"
    using cl assms(4-7) by (rule mask_subband_nth)
  also have "take ?n (drop (s * ?n) row) ! c = row ! (s * ?n + c)"
    using assms(4) le by simp
  finally show ?thesis .
qed

lemma masked_row_subband:
  assumes "length row = nsb * nat nchan" and "0 < nchan" and "s < nsb"
  shows "subband_of (nat nchan) s (concat (map (mask_subband nchan lo hi) (chunks (nat nchan) row)))
           = mask_subband nchan lo hi (subband_of (nat nchan) s row)"
proof -
  let ?n = "nat nchan"
  have n: "0 < ?n" using assms(2) by simp
  have u: "\<forall>ys \<in> set (map (mask_subband nchan lo hi) (chunks ?n row)). length ys = ?n"
    using chunks_all_length [OF assms(1) n] by (auto simp: length_mask_subband)
  have l: "s < length (map (mask_subband nchan lo hi) (chunks ?n row))"
    using assms(1,3) n by (simp add: length_chunks)
  have "subband_of ?n s (concat (map (mask_subband nchan lo hi) (chunks ?n row)))
          = map (mask_subband nchan lo hi) (chunks ?n row) ! s"
    unfolding subband_of_def using u l by (rule take_drop_concat_uniform)
  also have "\<dots> = mask_subband nchan lo hi (subband_of ?n s row)"
    using assms(1,3) n by (simp add: length_chunks chunks_nth subband_of_def)
  finally show ?thesis .
qed

lemma masked_row_zero:
  assumes "length row = nsb * nat nchan" and "0 < nchan"
  shows "concat (map (mask_subband nchan 0 0) (chunks (nat nchan) row)) = row"
proof -
  have n: "0 < nat nchan" using assms(2) by simp
  have "map (mask_subband nchan 0 0) (chunks (nat nchan) row) = chunks (nat nchan) row"
    using chunks_all_length [OF assms(1) n] assms(2)
    by (intro map_idI) (simp add: mask_subband_zero)
  then show ?thesis using concat_chunks [OF assms(1) n] by simp
qed

text \<open>
  Claim C6. For a cube of shape (time, \<open>nsb * n_channels\<close>, 2, 2) and edge counts
  \<open>lo\<close>, \<open>hi\<close> \<ge> 0 with \<open>lo + hi \<le> n_channels\<close> (the claim's case is \<open>lo = hi = k\<close>),
  the masking returns a cube of the same shape in which channel \<open>c\<close> of every subband
  is nan exactly when \<open>c < lo\<close> or \<open>c \<ge> n_channels - hi\<close> and every other cell is
  unchanged; a subband that held no nan before holds exactly \<open>lo + hi\<close> nan channels
  after, whatever the number of subbands; with both counts zero the cube is returned
  unchanged, and \<open>get\<close> skips the stage for the values \<open>0\<close> and \<open>(0, 0)\<close>.
\<close>

theorem remove_edge_channels_masks:
  assumes ok: "cube_ok d" and pos: "0 < nchan" and mult: "cube_nfreqs d = nsb * nat nchan"
    and lo: "0 \<le> lo" and hi: "0 \<le> hi" and fit: "lo + hi \<le> nchan"
  shows "\<exists>d'. remove_edge_channels d nchan lo hi = Inr d'
           \<and> cube_nfreqs d' = cube_nfreqs d
           \<and> length (cube_cells d') = length (cube_cells d)
           \<and> (\<forall>t < length (cube_cells d). \<forall>s < nsb. \<forall>c < nat nchan.
                 cube_cells d' ! t ! (s * nat nchan + c) =
                   (if int c < lo \<or> nchan - hi \<le> int c
                    then nan_fill (cube_cells d ! t ! (s * nat nchan + c))
                    else cube_cells d ! t ! (s * nat nchan + c)))
           \<and> (\<forall>t < length (cube_cells d). \<forall>s < nsb.
                 (\<forall>m \<in> set (subband_of (nat nchan) s (cube_cells d ! t)). \<not> is_nan m)
                 \<longrightarrow> nan_count (subband_of (nat nchan) s (cube_cells d' ! t)) = nat lo + nat hi)
           \<and> (lo = 0 \<and> hi = 0 \<longrightarrow> d' = d)
           \<and> edge_chans_zero (PyInt 0) \<and> edge_chans_zero (PyTuple [PyInt 0, PyInt 0])"
proof -
  let ?n = "nat nchan"
  let ?f = "\<lambda>row. concat (map (mask_subband nchan lo hi) (chunks ?n row))"
  let ?d' = "d\<lparr>cube_cells := map ?f (cube_cells d)\<rparr>"
  have r: "remove_edge_channels d nchan lo hi = Inr ?d'"
    by (simp add: remove_edge_channels_def subband_count_exact [OF pos mult])
  have hi': "hi \<le> nchan" using lo fit by linarith
  have row: "length (cube_cells d ! t) = nsb * ?n" and mok: "\<forall>m \<in> set (cube_cells d ! t). matrix_ok m"
    if "t < length (cube_cells d)" for t
    using cube_ok_row [OF ok that] mult by simp_all
  have cells: "\<forall>t < length (cube_cells d). \<forall>s < nsb. \<forall>c < ?n.
                 cube_cells ?d' ! t ! (s * ?n + c) =
                   (if int c < lo \<or> nchan - hi \<le> int c
                    then nan_fill (cube_cells d ! t ! (s * ?n + c))
                    else cube_cells d ! t ! (s * ?n + c))"
    using masked_row_nth [OF row pos _ _ lo hi hi'] by simp
  have count: "\<forall>t < length (cube_cells d). \<forall>s < nsb.
                 (\<forall>m \<in> set (subband_of ?n s (cube_cells d ! t)). \<not> is_nan m)
                 \<longrightarrow> nan_count (subband_of ?n s (cube_cells ?d' ! t)) = nat lo + nat hi"
  proof (intro allI impI)
    fix t s
    assume t: "t < length (cube_cells d)" and s: "s < nsb"
      and clean: "\<forall>m \<in> set (subband_of ?n s (cube_cells d ! t)). \<not> is_nan m"
    let ?sb = "subband_of ?n s (cube_cells d ! t)"
    have len: "length ?sb = ?n"
      unfolding subband_of_def using row [OF t] s by (rule chunk_length)
    have sok: "\<forall>m \<in> set ?sb. matrix_ok m"
      using mok [OF t] by (auto simp: subband_of_def dest: in_set_takeD in_set_dropD)
    have "subband_of ?n s (cube_cells ?d' ! t) = mask_subband nchan lo hi ?sb"
      using t masked_row_subband [OF row [OF t] pos s] by simp
    then show "nan_count (subband_of ?n s (cube_cells ?d' ! t)) = nat lo + nat hi"
      using nan_count_mask_subband [OF len lo hi fit sok clean] by simp
  qed
  have noop: "lo = 0 \<and> hi = 0 \<longrightarrow> ?d' = d"
  proof
    assume z: "lo = 0 \<and> hi = 0"
    have "map ?f (cube_cells d) = cube_cells d"
    proof (rule map_idI)
      fix row assume "row \<in> set (cube_cells d)"
      then have "length row = nsb * ?n" using ok mult by (auto simp: cube_ok_def list_all_iff)
      then show "?f row = row" using z masked_row_zero [OF _ pos] by simp
    qed
    then show "?d' = d" by simp
  qed
  have gate: "edge_chans_zero (PyInt 0)" "edge_chans_zero (PyTuple [PyInt 0, PyInt 0])"
    by (simp_all add: edge_chans_zero_def)
  show ?thesis
    using r cells count noop gate by (intro exI [of _ ?d']) simp
qed


lemma sample_cube_ok: "cube_ok sample_cube"
  by (simp add: cube_ok_def sample_cube_def matrix_ok_def sample_matrix_def)

lemma sample_cube_clean:
  "\<forall>m \<in> set (subband_of (nat 4) 0 (cube_cells sample_cube ! 0)). \<not> is_nan m"
  by (simp add: subband_of_def sample_cube_def is_nan_def sample_matrix_def)

theorem remove_edge_channels_masks_witness:
  "cube_ok sample_cube \<and> (0::int) < 4 \<and> cube_nfreqs sample_cube = 1 * nat 4
   \<and> (0::int) \<le> 1 \<and> (1::int) + 1 \<le> 4
   \<and> (\<exists>d'. remove_edge_channels sample_cube 4 1 1 = Inr d'
          \<and> cube_cells d' ! 0 ! 0 = nan_fill sample_matrix
          \<and> cube_cells d' ! 0 ! 1 = sample_matrix
          \<and> cube_cells d' ! 0 ! 2 = sample_matrix
          \<and> cube_cells d' ! 0 ! 3 = nan_fill sample_matrix
          \<and> nan_count (subband_of (nat 4) 0 (cube_cells d' ! 0)) = 2)"
proof -
  have s: "cube_nfreqs sample_cube = 1 * nat 4" by (simp add: sample_cube_def)
  have l: "length (cube_cells sample_cube) = 1" by (simp add: sample_cube_def)
  have c: "cube_cells sample_cube ! 0 = [sample_matrix, sample_matrix, sample_matrix, sample_matrix]"
    by (simp add: sample_cube_def)
  from remove_edge_channels_masks [OF sample_cube_ok _ s, of 1 1]
  obtain d' where d: "remove_edge_channels sample_cube 4 1 1 = Inr d'"
    and cells: "\<forall>t < length (cube_cells sample_cube). \<forall>s < 1. \<forall>c < nat 4.
                 cube_cells d' ! t ! (s * nat 4 + c) =
                   (if int c < 1 \<or> 4 - 1 \<le> int c
                    then nan_fill (cube_cells sample_cube ! t ! (s * nat 4 + c))
                    else cube_cells sample_cube ! t ! (s * nat 4 + c))"
    and count: "\<forall>t < length (cube_cells sample_cube). \<forall>s < 1.
                 (\<forall>m \<in> set (subband_of (nat 4) s (cube_cells sample_cube ! t)). \<not> is_nan m)
                 \<longrightarrow> nan_count (subband_of (nat 4) s (cube_cells d' ! t)) = nat 1 + nat 1"
    by auto
  have c0: "cube_cells d' ! 0 ! 0 = nan_fill sample_matrix"
    using cells [rule_format, of 0 0 0] l c by simp
  have c1: "cube_cells d' ! 0 ! 1 = sample_matrix"
    using cells [rule_format, of 0 0 1] l c by simp
  have c2: "cube_cells d' ! 0 ! 2 = sample_matrix"
    using cells [rule_format, of 0 0 2] l c by (simp add: eval_nat_numeral)
  have c3: "cube_cells d' ! 0 ! 3 = nan_fill sample_matrix"
    using cells [rule_format, of 0 0 3] l c by (simp add: eval_nat_numeral)
  have n: "nan_count (subband_of (nat 4) 0 (cube_cells d' ! 0)) = 2"
    using count [rule_format, of 0 0] l sample_cube_clean by simp
  show ?thesis
    using sample_cube_ok s d c0 c1 c2 c3 n by auto
qed

end
